theory Spec2Isabelle
  imports
    Complex_Main
    "HOL-Library.AList"
    "HOL-Library.Sublist"
    "HOL-Library.Char_ord"
    "HOL-Library.List_Lexorder"
    "HOL-Library.Multiset"
    "HOL-Library.Word"
begin

section \<open>JavaScript strings and arrays\<close>

text \<open>
  Strings are lists of 8-bit characters, compared as JavaScript compares them: code unit by
  code unit, a proper prefix being smaller (the order of \<open>List_Lexorder\<close> over
  \<open>Char_ord\<close>). \<open>toLowerCase\<close> is modelled on the ASCII letters.
\<close>

type_synonym bytes = "8 word list"

definition lower_char :: "char \<Rightarrow> char" where
  "lower_char c =
     (let n = (of_char c :: nat) in if 65 \<le> n \<and> n \<le> 90 then char_of (n + 32) else c)"

definition toLowerCase :: "string \<Rightarrow> string" where
  "toLowerCase s = map lower_char s"

definition startsWith :: "string \<Rightarrow> string \<Rightarrow> bool" where
  "startsWith s p = prefix p s"

definition includes_str :: "string \<Rightarrow> string \<Rightarrow> bool" where
  "includes_str s sub = sublist sub s"

text \<open>\<open>Array.prototype.slice(start, end)\<close>: a negative index counts from the end.\<close>

definition slice :: "'a list \<Rightarrow> int \<Rightarrow> int \<Rightarrow> 'a list" where
  "slice xs start fin =
     (let n = int (length xs);
          k = (if start < 0 then max (n + start) 0 else min start n);
          e = (if fin < 0 then max (n + fin) 0 else min fin n)
      in take (nat (e - k)) (drop (nat k) xs))"

text \<open>
  \<open>Array.prototype.sort(compare)\<close> is stable. For a consistent comparator the result is
  the one of a stable insertion sort: an element goes in front of the first element it
  does not compare greater than.
\<close>

fun insert_cmp :: "('a \<Rightarrow> 'a \<Rightarrow> int) \<Rightarrow> 'a \<Rightarrow> 'a list \<Rightarrow> 'a list" where
  "insert_cmp c x [] = [x]"
| "insert_cmp c x (y # ys) = (if c x y \<le> 0 then x # y # ys else y # insert_cmp c x ys)"

definition array_sort :: "('a \<Rightarrow> 'a \<Rightarrow> int) \<Rightarrow> 'a list \<Rightarrow> 'a list" where
  "array_sort c xs = foldr (insert_cmp c) xs []"

text \<open>Template-literal rendering of an integer, \<open>`${v}`\<close>.\<close>

definition digit_char :: "nat \<Rightarrow> char" where
  "digit_char d = char_of (48 + d)"

fun show_nat :: "nat \<Rightarrow> string" where
  "show_nat n = (if n < 10 then [digit_char n] else show_nat (n div 10) @ [digit_char (n mod 10)])"

definition show_int :: "int \<Rightarrow> string" where
  "show_int i = (if i < 0 then CHR ''-'' # show_nat (nat (- i)) else show_nat (nat i))"

text \<open>
  \<open>path.join\<close> on the segments the services pass: the segments joined by \<open>/\<close>, a leading
  \<open>./\<close> dropped. (Segments holding \<open>..\<close> or empty segments, which \<open>join\<close> would also
  normalise, are left as they are.)
\<close>

definition strip_dot :: "string \<Rightarrow> string" where
  "strip_dot p = (if prefix ''./'' p then drop 2 p else p)"

fun intercalate :: "string \<Rightarrow> string list \<Rightarrow> string" where
  "intercalate sep [] = ''''"
| "intercalate sep [s] = s"
| "intercalate sep (s # t # ss) = s @ sep @ intercalate sep (t # ss)"

definition join :: "string list \<Rightarrow> string" where
  "join segs = strip_dot (intercalate ''/'' segs)"

section \<open>types/index.ts\<close>

datatype FileCategory = Images | Documents | Videos | Audio | Others

record FileMetadata =
  id_m :: string
  originalName :: string
  fileName :: string
  mimeType :: string
  size_m :: nat
  category :: FileCategory
  path :: string
  url :: string
  thumbnailUrl :: "string option"
  width :: "nat option"
  height :: "nat option"
  uploadedAt :: int
  expiresAt :: "int option"
  downloads :: nat
  isPublic :: bool
  checksum :: string
  tags :: "string list option"

record UploadOptions =
  opt_generateThumbnail :: "bool option"
  opt_maxWidth :: "int option"
  opt_maxHeight :: "int option"
  opt_quality :: "int option"
  opt_isPublic :: "bool option"
  opt_expiresIn :: "int option"
  opt_tags :: "string list option"

datatype Format = Jpeg | Png | Webp | Avif

datatype Fit = Cover | Contain | Fill | Inside | Outside

record ImageTransformOptions =
  t_width :: "int option"
  t_height :: "int option"
  t_quality :: "int option"
  t_format :: "Format option"
  t_fit :: "Fit option"
  t_blur :: "int option"
  t_grayscale :: "bool option"

datatype SortBy = UploadedAt | Size | OriginalName | Downloads

datatype SortOrder = Asc | Desc

datatype CategoryFilter = All | Only FileCategory

record ListFilesParams =
  p_page :: "int option"
  p_limit :: "int option"
  p_category :: "CategoryFilter option"
  p_search :: "string option"
  p_sortBy :: "SortBy option"
  p_sortOrder :: "SortOrder option"

section \<open>utils/helpers.ts\<close>

definition category_name :: "FileCategory \<Rightarrow> string" where
  "category_name c =
     (case c of Images \<Rightarrow> ''images'' | Documents \<Rightarrow> ''documents'' | Videos \<Rightarrow> ''videos''
      | Audio \<Rightarrow> ''audio'' | Others \<Rightarrow> ''others'')"

definition getFileCategory :: "string \<Rightarrow> FileCategory" where
  "getFileCategory mt =
     (if startsWith mt ''image/'' then Images
      else if startsWith mt ''video/'' then Videos
      else if startsWith mt ''audio/'' then Audio
      else if mt = ''application/pdf'' \<or> includes_str mt ''document'' \<or> includes_str mt ''text''
              \<or> includes_str mt ''spreadsheet'' \<or> includes_str mt ''presentation''
      then Documents
      else Others)"

definition isImage :: "string \<Rightarrow> bool" where
  "isImage mt = startsWith mt ''image/''"

text \<open>
  \<open>getExtension\<close>: \<open>filename.split('.')\<close>; with more than one part, the last part in lower
  case, otherwise the empty string.
\<close>

fun split_on :: "char \<Rightarrow> string \<Rightarrow> string list" where
  "split_on d [] = [[]]"
| "split_on d (c # cs) =
     (if c = d then [] # split_on d cs
      else (case split_on d cs of [] \<Rightarrow> [[c]] | p # ps \<Rightarrow> (c # p) # ps))"

definition getExtension :: "string \<Rightarrow> string" where
  "getExtension filename =
     (let parts = split_on CHR ''.'' filename
      in if length parts > 1 then toLowerCase (last parts) else '''')"

definition MAX_SIZES :: "FileCategory \<Rightarrow> nat" where
  "MAX_SIZES c =
     (case c of Images \<Rightarrow> 10 * 1024 * 1024 | Documents \<Rightarrow> 50 * 1024 * 1024
      | Videos \<Rightarrow> 500 * 1024 * 1024 | Audio \<Rightarrow> 50 * 1024 * 1024 | Others \<Rightarrow> 25 * 1024 * 1024)"

definition ALLOWED_TYPES :: "FileCategory \<Rightarrow> string list" where
  "ALLOWED_TYPES c =
     (case c of
        Images \<Rightarrow> [''image/jpeg'', ''image/png'', ''image/gif'', ''image/webp'',
                   ''image/svg+xml'', ''image/avif'']
      | Documents \<Rightarrow> [''application/pdf'', ''application/msword'',
          ''application/vnd.openxmlformats-officedocument.wordprocessingml.document'',
          ''application/vnd.ms-excel'',
          ''application/vnd.openxmlformats-officedocument.spreadsheetml.sheet'',
          ''application/vnd.ms-powerpoint'',
          ''application/vnd.openxmlformats-officedocument.presentationml.presentation'',
          ''text/plain'', ''text/csv'', ''text/markdown'']
      | Videos \<Rightarrow> [''video/mp4'', ''video/webm'', ''video/ogg'', ''video/quicktime'',
                   ''video/x-msvideo'']
      | Audio \<Rightarrow> [''audio/mpeg'', ''audio/wav'', ''audio/ogg'', ''audio/webm'', ''audio/aac'',
                  ''audio/flac'']
      | Others \<Rightarrow> [])"

text \<open>
  \<open>validateFile\<close> returns \<open>{ valid, error }\<close>. The error text of the source is built with
  \<open>formatBytes\<close> (floating point); the model keeps what the text is built from.
\<close>

datatype Rejection = SizeExceeds FileCategory nat | TypeNotAllowed string FileCategory

datatype Validation = Valid | Invalid Rejection

definition validateFile :: "string \<Rightarrow> nat \<Rightarrow> Validation" where
  "validateFile mt sz =
     (let cat = getFileCategory mt; maxSize = MAX_SIZES cat in
      if sz > maxSize then Invalid (SizeExceeds cat maxSize)
      else let allowedTypes = ALLOWED_TYPES cat in
        if length allowedTypes > 0 \<and> mt \<notin> set allowedTypes
        then Invalid (TypeNotAllowed mt cat)
        else Valid)"


datatype js_value = JNum int | JStr string | JBool bool

definition render_value :: "js_value \<Rightarrow> string" where
  "render_value v =
     (case v of JNum i \<Rightarrow> show_int i | JStr t \<Rightarrow> t
      | JBool b \<Rightarrow> (if b then ''true'' else ''false''))"

text \<open>
  \<open>localeCompare\<close> on the keys of a descriptor, which are lower-case ASCII words: the
  alphabetical order.
\<close>

definition localeCompare :: "string \<Rightarrow> string \<Rightarrow> int" where
  "localeCompare a b = (if a < b then - 1 else if b < a then 1 else 0)"

text \<open>
  \<open>generateCacheKey\<close> takes the options as a \<open>Record<string, unknown>\<close>: its entries in
  property order, an undefined value being \<open>None\<close>.
\<close>

definition generateCacheKey :: "string \<Rightarrow> (string \<times> js_value option) list \<Rightarrow> string" where
  "generateCacheKey fileId options =
     (let optionsStr =
        intercalate ''_''
          (map (\<lambda>(k, v). k @ ''='' @ render_value v)
            (array_sort (\<lambda>a b. localeCompare (fst a) (fst b))
              [(k, v). (k, Some v) \<leftarrow> options]))
      in fileId @ ''_'' @ optionsStr)"

section \<open>The file system and the external libraries\<close>

text \<open>
  The file system is a list of paths with their contents, the persisted metadata index
  (\<open>./data/files.json\<close>, kept as the entries it serialises) and the paths on which an
  unlink or a write raises an I/O error. An unlink of a missing path raises as well.
\<close>

record filesystem =
  disk :: "(string \<times> bytes) list"
  index_file :: "(string \<times> FileMetadata) list option"
  faulty :: "string list"

datatype error = ValidationError Rejection | IOError string | TransformError

definition read_file :: "filesystem \<Rightarrow> string \<Rightarrow> bytes option" where
  "read_file f p = map_of (disk f) p"

definition exists_file :: "filesystem \<Rightarrow> string \<Rightarrow> bool" where
  "exists_file f p = (map_of (disk f) p \<noteq> None)"

definition write_file :: "filesystem \<Rightarrow> string \<Rightarrow> bytes \<Rightarrow> error + filesystem" where
  "write_file f p b =
     (if p \<in> set (faulty f) then Inl (IOError p)
      else Inr (f\<lparr>disk := AList.update p b (disk f)\<rparr>))"

definition unlink :: "filesystem \<Rightarrow> string \<Rightarrow> error + filesystem" where
  "unlink f p =
     (if p \<in> set (faulty f) \<or> map_of (disk f) p = None then Inl (IOError p)
      else Inr (f\<lparr>disk := AList.delete p (disk f)\<rparr>))"

definition readdir :: "filesystem \<Rightarrow> string \<Rightarrow> string list" where
  "readdir f dir =
     (let pre = join [dir] @ ''/''
      in [drop (length pre) p. (p, b) \<leftarrow> disk f, prefix pre p,
            CHR ''/'' \<notin> set (drop (length pre) p)])"

text \<open>
  What the services call and the repository does not define: the SHA-256 digest, the
  \<open>mime-types\<close> lookup, and \<open>sharp\<close> (reading the dimensions of an image, running a
  pipeline of operations on one). \<open>None\<close> is a rejected promise.
\<close>

datatype ResizeExtra = WithoutEnlargement | PositionCenter

datatype sharp_op =
  Resize "int option" "int option" Fit ResizeExtra
| Blur int
| Grayscale
| Encode Format int

record externals =
  sha256 :: "bytes \<Rightarrow> bytes"
  mime_lookup :: "string \<Rightarrow> string option"
  sharp_metadata :: "bytes \<Rightarrow> (nat option \<times> nat option) option"
  sharp_render :: "bytes \<Rightarrow> sharp_op list \<Rightarrow> bytes option"

definition hex_digit :: "nat \<Rightarrow> char" where
  "hex_digit n = ''0123456789abcdef'' ! (n mod 16)"

definition hex_byte :: "8 word \<Rightarrow> string" where
  "hex_byte b = [hex_digit (unat b div 16), hex_digit (unat b mod 16)]"

definition generateChecksum :: "externals \<Rightarrow> bytes \<Rightarrow> string" where
  "generateChecksum X buffer = concat (map hex_byte (sha256 X buffer))"

section \<open>services/image.ts\<close>

definition cacheDir :: string where
  "cacheDir = ''./cache''"

definition truthy :: "int option \<Rightarrow> bool" where
  "truthy v = (case v of None \<Rightarrow> False | Some n \<Rightarrow> n \<noteq> 0)"

definition or_default :: "int option \<Rightarrow> int \<Rightarrow> int" where
  "or_default v d = (case v of None \<Rightarrow> d | Some n \<Rightarrow> if n \<noteq> 0 then n else d)"

definition format_name :: "Format \<Rightarrow> string" where
  "format_name f =
     (case f of Jpeg \<Rightarrow> ''jpeg'' | Png \<Rightarrow> ''png'' | Webp \<Rightarrow> ''webp'' | Avif \<Rightarrow> ''avif'')"

definition fit_name :: "Fit \<Rightarrow> string" where
  "fit_name f =
     (case f of Cover \<Rightarrow> ''cover'' | Contain \<Rightarrow> ''contain'' | Fill \<Rightarrow> ''fill''
      | Inside \<Rightarrow> ''inside'' | Outside \<Rightarrow> ''outside'')"

definition format_or_jpeg :: "ImageTransformOptions \<Rightarrow> Format" where
  "format_or_jpeg options = (case t_format options of None \<Rightarrow> Jpeg | Some f \<Rightarrow> f)"

definition pipeline :: "ImageTransformOptions \<Rightarrow> sharp_op list" where
  "pipeline options =
     (if truthy (t_width options) \<or> truthy (t_height options)
      then [Resize (t_width options) (t_height options)
              (case t_fit options of None \<Rightarrow> Inside | Some f \<Rightarrow> f) WithoutEnlargement]
      else [])
     @ (case t_blur options of
          None \<Rightarrow> []
        | Some b \<Rightarrow> if b \<noteq> 0 then [Blur (min b 100)] else [])
     @ (if t_grayscale options = Some True then [Grayscale] else [])
     @ [Encode (format_or_jpeg options) (or_default (t_quality options) 80)]"

definition transform ::
  "externals \<Rightarrow> filesystem \<Rightarrow> string \<Rightarrow> ImageTransformOptions \<Rightarrow> error + bytes" where
  "transform X f inputPath options =
     (case read_file f inputPath of
        None \<Rightarrow> Inl TransformError
      | Some src \<Rightarrow>
          (case sharp_render X src (pipeline options) of
             None \<Rightarrow> Inl TransformError
           | Some out \<Rightarrow> Inr out))"

definition generateThumbnail ::
  "externals \<Rightarrow> filesystem \<Rightarrow> string \<Rightarrow> string \<Rightarrow> int \<Rightarrow> error + filesystem" where
  "generateThumbnail X f inputPath outputPath sz =
     (case read_file f inputPath of
        None \<Rightarrow> Inl TransformError
      | Some src \<Rightarrow>
          (case sharp_render X src [Resize (Some sz) (Some sz) Cover PositionCenter, Encode Jpeg 80] of
             None \<Rightarrow> Inl TransformError
           | Some out \<Rightarrow> write_file f outputPath out))"

definition getMetadata :: "externals \<Rightarrow> filesystem \<Rightarrow> string \<Rightarrow> error + (nat \<times> nat)" where
  "getMetadata X f inputPath =
     (case read_file f inputPath of
        None \<Rightarrow> Inl TransformError
      | Some src \<Rightarrow>
          (case sharp_metadata X src of
             None \<Rightarrow> Inl TransformError
           | Some (w, h) \<Rightarrow>
               Inr (case w of None \<Rightarrow> 0 | Some n \<Rightarrow> n, case h of None \<Rightarrow> 0 | Some n \<Rightarrow> n)))"

text \<open>The options cast to \<open>Record<string, unknown>\<close>: one entry per field of the interface.\<close>

definition entries :: "ImageTransformOptions \<Rightarrow> (string \<times> js_value option) list" where
  "entries options =
     [(''width'', map_option JNum (t_width options)),
      (''height'', map_option JNum (t_height options)),
      (''quality'', map_option JNum (t_quality options)),
      (''format'', map_option (\<lambda>f. JStr (format_name f)) (t_format options)),
      (''fit'', map_option (\<lambda>f. JStr (fit_name f)) (t_fit options)),
      (''blur'', map_option JNum (t_blur options)),
      (''grayscale'', map_option JBool (t_grayscale options))]"

definition cachePath :: "string \<Rightarrow> ImageTransformOptions \<Rightarrow> string" where
  "cachePath fileId options =
     join [cacheDir,
           generateCacheKey fileId (entries options) @ ''.'' @ format_name (format_or_jpeg options)]"

definition getCachedTransform ::
  "externals \<Rightarrow> filesystem \<Rightarrow> string \<Rightarrow> string \<Rightarrow> ImageTransformOptions
     \<Rightarrow> (error + bytes \<times> bool) \<times> filesystem" where
  "getCachedTransform X f fileId inputPath options =
     (case read_file f (cachePath fileId options) of
        Some buffer \<Rightarrow> (Inr (buffer, True), f)
      | None \<Rightarrow>
          (case transform X f inputPath options of
             Inl e \<Rightarrow> (Inl e, f)
           | Inr buffer \<Rightarrow>
               (case write_file f (cachePath fileId options) buffer of
                  Inl e \<Rightarrow> (Inl e, f)
                | Inr f' \<Rightarrow> (Inr (buffer, False), f'))))"

text \<open>
  \<open>clearCache\<close>: the loop over the directory listing stops at the first unlink that
  raises; the surrounding \<open>try\<close> swallows the error.
\<close>

fun clearCache_loop :: "filesystem \<Rightarrow> string \<Rightarrow> string list \<Rightarrow> filesystem" where
  "clearCache_loop f fileId [] = f"
| "clearCache_loop f fileId (file # rest) =
     (if startsWith file fileId
      then (case unlink f (join [cacheDir, file]) of
              Inl e \<Rightarrow> f
            | Inr f' \<Rightarrow> clearCache_loop f' fileId rest)
      else clearCache_loop f fileId rest)"

definition clearCache :: "filesystem \<Rightarrow> string \<Rightarrow> filesystem" where
  "clearCache f fileId = clearCache_loop f fileId (readdir f cacheDir)"

section \<open>services/storage.ts\<close>

text \<open>
  The service holds a \<open>Map\<close> from id to record, kept here as the list of its entries in
  insertion order (\<open>Map.set\<close> replaces in place or appends, \<open>Map.delete\<close> removes), and
  works on the file system. The fresh id (\<open>nanoid\<close>) and the readings of the clock are
  arguments of the operations that take them.
\<close>

record storage =
  files :: "(string \<times> FileMetadata) list"
  fs :: filesystem

record File =
  f_name :: string
  f_type :: string
  f_size :: nat
  f_bytes :: bytes

record FileUpdates =
  upd_isPublic :: "bool option"
  upd_tags :: "string list option"
  upd_expiresAt :: "int option"

record ListResult =
  r_files :: "FileMetadata list"
  r_total :: nat
  r_page :: int
  r_totalPages :: int

definition BASE_URL :: string where
  "BASE_URL = ''http://localhost:3000''"

definition uploadsDir :: string where
  "uploadsDir = ''./uploads''"

definition metadataPath :: string where
  "metadataPath = ''./data/files.json''"

definition saveMetadata :: "storage \<Rightarrow> error + storage" where
  "saveMetadata st =
     (if metadataPath \<in> set (faulty (fs st)) then Inl (IOError metadataPath)
      else Inr (st\<lparr>fs := (fs st)\<lparr>index_file := Some (files st)\<rparr>\<rparr>))"

definition resolve_mime :: "externals \<Rightarrow> File \<Rightarrow> string" where
  "resolve_mime X file =
     (if f_type file \<noteq> [] then f_type file
      else (case mime_lookup X (f_name file) of
              Some t \<Rightarrow> if t \<noteq> [] then t else ''application/octet-stream''
            | None \<Rightarrow> ''application/octet-stream''))"

definition find_duplicate ::
  "(string \<times> FileMetadata) list \<Rightarrow> string \<Rightarrow> (string \<times> FileMetadata) option" where
  "find_duplicate es c = find (\<lambda>(existingId, meta). checksum meta = c) es"

text \<open>
  The image branch of \<open>upload\<close>: dimensions, thumbnail and resize, each in its own
  \<open>try\<close> whose \<open>catch\<close> is empty. It returns width, height, thumbnail URL and the file
  system it leaves.
\<close>

definition image_steps ::
  "externals \<Rightarrow> filesystem \<Rightarrow> string \<Rightarrow> string \<Rightarrow> UploadOptions
     \<Rightarrow> (nat option \<times> nat option \<times> string option) \<times> filesystem" where
  "image_steps X f0 ident filePath options =
     (let (w0, h0) =
            (case getMetadata X f0 filePath of
               Inl e \<Rightarrow> (None, None)
             | Inr (w, h) \<Rightarrow> (Some w, Some h));
          (thumb, f1) =
            (if opt_generateThumbnail options \<noteq> Some False
             then (case generateThumbnail X f0 filePath
                          (join [uploadsDir, ''thumbnails'', ident @ ''.jpg'']) 200 of
                     Inl e \<Rightarrow> (None, f0)
                   | Inr f' \<Rightarrow> (Some (BASE_URL @ ''/cdn/thumb/'' @ ident), f'))
             else (None, f0))
      in if truthy (opt_maxWidth options) \<or> truthy (opt_maxHeight options)
         then (case transform X f1 filePath
                      \<lparr>t_width = opt_maxWidth options, t_height = opt_maxHeight options,
                       t_quality = Some (or_default (opt_quality options) 85),
                       t_format = None, t_fit = Some Inside, t_blur = None,
                       t_grayscale = None\<rparr> of
                 Inl e \<Rightarrow> ((w0, h0, thumb), f1)
               | Inr resizedBuffer \<Rightarrow>
                   (case write_file f1 filePath resizedBuffer of
                      Inl e \<Rightarrow> ((w0, h0, thumb), f1)
                    | Inr f2 \<Rightarrow>
                        (case getMetadata X f2 filePath of
                           Inl e \<Rightarrow> ((w0, h0, thumb), f2)
                         | Inr (w, h) \<Rightarrow> ((Some w, Some h, thumb), f2))))
         else ((w0, h0, thumb), f1))"

definition upload ::
  "externals \<Rightarrow> storage \<Rightarrow> File \<Rightarrow> UploadOptions \<Rightarrow> string \<Rightarrow> int \<Rightarrow> int
     \<Rightarrow> (error + FileMetadata) \<times> storage" where
  "upload X st file options ident now1 now2 =
     (let mt = resolve_mime X file; sz = f_size file in
      case validateFile mt sz of
        Invalid r \<Rightarrow> (Inl (ValidationError r), st)
      | Valid \<Rightarrow>
          (let cat = getFileCategory mt;
               ext = getExtension (f_name file);
               fname = ident @ ''.'' @ ext;
               filePath = join [uploadsDir, category_name cat, fname];
               csum = generateChecksum X (f_bytes file)
           in case find_duplicate (files st) csum of
                Some (existingId, meta) \<Rightarrow> (Inr meta, st)
              | None \<Rightarrow>
                  (case write_file (fs st) filePath (f_bytes file) of
                     Inl e \<Rightarrow> (Inl e, st)
                   | Inr f0 \<Rightarrow>
                       (let ((w, h, thumb), f1) =
                              (if isImage mt then image_steps X f0 ident filePath options
                               else ((None, None, None), f0));
                            metadata =
                              \<lparr>id_m = ident, originalName = f_name file, fileName = fname,
                               mimeType = mt, size_m = sz, category = cat, path = filePath,
                               url = BASE_URL @ ''/cdn/'' @ ident, thumbnailUrl = thumb,
                               width = w, height = h, uploadedAt = now1,
                               expiresAt =
                                 (case opt_expiresIn options of
                                    None \<Rightarrow> None
                                  | Some n \<Rightarrow> if n \<noteq> 0 then Some (now2 + n * 1000) else None),
                               downloads = 0,
                               isPublic =
                                 (case opt_isPublic options of None \<Rightarrow> True | Some b \<Rightarrow> b),
                               checksum = csum, tags = opt_tags options\<rparr>;
                            st1 = st\<lparr>files := AList.update ident metadata (files st), fs := f1\<rparr>
                        in case saveMetadata st1 of
                             Inl e \<Rightarrow> (Inl e, st1)
                           | Inr st2 \<Rightarrow> (Inr metadata, st2)))))"

definition getFile :: "storage \<Rightarrow> string \<Rightarrow> FileMetadata option" where
  "getFile st ident = map_of (files st) ident"

text \<open>
  The expiration test of \<open>getFileContent\<close> and \<open>cleanupExpired\<close>,
  \<open>metadata.expiresAt && metadata.expiresAt < now\<close>: an absent or zero \<open>expiresAt\<close> is
  falsy.
\<close>

definition is_expired :: "FileMetadata \<Rightarrow> int \<Rightarrow> bool" where
  "is_expired metadata now =
     (case expiresAt metadata of None \<Rightarrow> False | Some e \<Rightarrow> e \<noteq> 0 \<and> e < now)"

definition deleteFile :: "storage \<Rightarrow> string \<Rightarrow> bool \<times> storage" where
  "deleteFile st ident =
     (case map_of (files st) ident of
        None \<Rightarrow> (False, st)
      | Some metadata \<Rightarrow>
          (case unlink (fs st) (path metadata) of
             Inl e \<Rightarrow> (False, st)
           | Inr f1 \<Rightarrow>
               (let f2 =
                      (case thumbnailUrl metadata of
                         None \<Rightarrow> f1
                       | Some u \<Rightarrow>
                           if u = [] then f1
                           else (case unlink f1 (join [uploadsDir, ''thumbnails'', ident @ ''.jpg'']) of
                                   Inl e \<Rightarrow> f1
                                 | Inr f' \<Rightarrow> f'));
                    f3 = clearCache f2 ident;
                    st1 = st\<lparr>files := AList.delete ident (files st), fs := f3\<rparr>
                in case saveMetadata st1 of
                     Inl e \<Rightarrow> (False, st1)
                   | Inr st2 \<Rightarrow> (True, st2))))"

text \<open>
  \<open>getFileContent\<close> returns the file handle (its path) and the record, or \<open>null\<close>.
\<close>

definition getFileContent ::
  "storage \<Rightarrow> string \<Rightarrow> int \<Rightarrow> (error + (string \<times> FileMetadata) option) \<times> storage" where
  "getFileContent st ident now =
     (case map_of (files st) ident of
        None \<Rightarrow> (Inr None, st)
      | Some metadata \<Rightarrow>
          if is_expired metadata now then (Inr None, snd (deleteFile st ident))
          else
            (let metadata' = metadata\<lparr>downloads := downloads metadata + 1\<rparr>;
                 st1 = st\<lparr>files := AList.update ident metadata' (files st)\<rparr>
             in case saveMetadata st1 of
                  Inl e \<Rightarrow> (Inl e, st1)
                | Inr st2 \<Rightarrow> (Inr (Some (path metadata', metadata')), st2)))"

fun deleteMultiple_loop ::
  "storage \<Rightarrow> string list \<Rightarrow> string list \<Rightarrow> string list \<Rightarrow> (string list \<times> string list) \<times> storage" where
  "deleteMultiple_loop st [] deleted failed = ((deleted, failed), st)"
| "deleteMultiple_loop st (ident # ids) deleted failed =
     (let (success, st') = deleteFile st ident
      in if success then deleteMultiple_loop st' ids (deleted @ [ident]) failed
         else deleteMultiple_loop st' ids deleted (failed @ [ident]))"

definition deleteMultiple :: "storage \<Rightarrow> string list \<Rightarrow> (string list \<times> string list) \<times> storage" where
  "deleteMultiple st ids = deleteMultiple_loop st ids [] []"

definition updateFile ::
  "storage \<Rightarrow> string \<Rightarrow> FileUpdates \<Rightarrow> (error + FileMetadata option) \<times> storage" where
  "updateFile st ident updates =
     (case map_of (files st) ident of
        None \<Rightarrow> (Inr None, st)
      | Some metadata \<Rightarrow>
          (let m1 = (case upd_isPublic updates of
                       None \<Rightarrow> metadata | Some b \<Rightarrow> metadata\<lparr>isPublic := b\<rparr>);
               m2 = (case upd_tags updates of None \<Rightarrow> m1 | Some t \<Rightarrow> m1\<lparr>tags := Some t\<rparr>);
               m3 = (case upd_expiresAt updates of
                       None \<Rightarrow> m2 | Some e \<Rightarrow> m2\<lparr>expiresAt := Some e\<rparr>);
               st1 = st\<lparr>files := AList.update ident m3 (files st)\<rparr>
           in case saveMetadata st1 of
                Inl e \<Rightarrow> (Inl e, st1)
              | Inr st2 \<Rightarrow> (Inr (Some m3), st2)))"

text \<open>
  \<open>cleanupExpired\<close> walks the entries of the map and calls \<open>deleteFile\<close> on the expired
  ones; a call removes at most the entry being visited, so the walk sees every entry
  the map held at the start.
\<close>

fun cleanup_loop ::
  "storage \<Rightarrow> int \<Rightarrow> (string \<times> FileMetadata) list \<Rightarrow> nat \<Rightarrow> nat \<times> storage" where
  "cleanup_loop st now [] counter = (counter, st)"
| "cleanup_loop st now ((ident, metadata) # rest) counter =
     (if is_expired metadata now
      then cleanup_loop (snd (deleteFile st ident)) now rest (counter + 1)
      else cleanup_loop st now rest counter)"

definition cleanupExpired :: "storage \<Rightarrow> int \<Rightarrow> nat \<times> storage" where
  "cleanupExpired st now = cleanup_loop st now (files st) 0"

subsection \<open>listFiles\<close>

datatype sort_val = NumV int | StrV string

definition field_val :: "SortBy \<Rightarrow> FileMetadata \<Rightarrow> sort_val" where
  "field_val sortBy a =
     (case sortBy of
        UploadedAt \<Rightarrow> NumV (uploadedAt a)
      | Size \<Rightarrow> NumV (int (size_m a))
      | OriginalName \<Rightarrow> StrV (originalName a)
      | Downloads \<Rightarrow> NumV (int (downloads a)))"

definition lower_val :: "sort_val \<Rightarrow> sort_val" where
  "lower_val v = (case v of StrV t \<Rightarrow> StrV (toLowerCase t) | NumV n \<Rightarrow> NumV n)"

fun val_less :: "sort_val \<Rightarrow> sort_val \<Rightarrow> bool" where
  "val_less (NumV a) (NumV b) = (a < b)"
| "val_less (StrV a) (StrV b) = (a < b)"
| "val_less _ _ = False"

definition compare_files :: "SortBy \<Rightarrow> SortOrder \<Rightarrow> FileMetadata \<Rightarrow> FileMetadata \<Rightarrow> int" where
  "compare_files sortBy sortOrder a b =
     (let aVal = lower_val (field_val sortBy a); bVal = lower_val (field_val sortBy b) in
      if sortOrder = Asc
      then (if val_less aVal bVal then - 1 else if val_less bVal aVal then 1 else 0)
      else (if val_less bVal aVal then - 1 else if val_less aVal bVal then 1 else 0))"

definition matches_search :: "string \<Rightarrow> FileMetadata \<Rightarrow> bool" where
  "matches_search searchLower f =
     (includes_str (toLowerCase (originalName f)) searchLower
      \<or> (case tags f of
            None \<Rightarrow> False
          | Some ts \<Rightarrow> list_ex (\<lambda>t. includes_str (toLowerCase t) searchLower) ts))"

text \<open>The array \<open>listFiles\<close> paginates: the records filtered and sorted.\<close>

definition fileArray :: "storage \<Rightarrow> ListFilesParams \<Rightarrow> FileMetadata list" where
  "fileArray st params =
     (let cat = (case p_category params of None \<Rightarrow> All | Some c \<Rightarrow> c);
          search = (case p_search params of None \<Rightarrow> [] | Some t \<Rightarrow> t);
          sortBy = (case p_sortBy params of None \<Rightarrow> UploadedAt | Some k \<Rightarrow> k);
          sortOrder = (case p_sortOrder params of None \<Rightarrow> Desc | Some d \<Rightarrow> d);
          a0 = map snd (files st);
          a1 = (case cat of All \<Rightarrow> a0 | Only c \<Rightarrow> filter (\<lambda>f. category f = c) a0);
          a2 = (if search \<noteq> [] then filter (matches_search (toLowerCase search)) a1 else a1)
      in array_sort (compare_files sortBy sortOrder) a2)"

definition listFiles :: "storage \<Rightarrow> ListFilesParams \<Rightarrow> ListResult" where
  "listFiles st params =
     (let page = (case p_page params of None \<Rightarrow> 1 | Some p \<Rightarrow> p);
          limit = (case p_limit params of None \<Rightarrow> 20 | Some l \<Rightarrow> l);
          arr = fileArray st params;
          total = length arr;
          totalPages = \<lceil>real total / real_of_int limit\<rceil>;
          start = (page - 1) * limit
      in \<lparr>r_files = slice arr start (start + limit), r_total = total, r_page = page,
          r_totalPages = totalPages\<rparr>)"

section \<open>Example stores\<close>

text \<open>
  A record whose \<open>expiresAt\<close> is 1000, and stores holding it: one with its disk object,
  one whose disk object is missing, and one whose thumbnail is missing and whose cached
  variant cannot be unlinked.
\<close>

definition rec_a :: FileMetadata where
  "rec_a = \<lparr>id_m = ''a'', originalName = ''Report.PDF'', fileName = ''a.pdf'',
     mimeType = ''application/pdf'', size_m = 3, category = Documents,
     path = ''uploads/documents/a.pdf'', url = ''http://localhost:3000/cdn/a'',
     thumbnailUrl = Some ''http://localhost:3000/cdn/thumb/a'', width = None, height = None,
     uploadedAt = 500, expiresAt = Some 1000, downloads = 0, isPublic = True,
     checksum = ''010203'', tags = None\<rparr>"

definition store_one :: storage where
  "store_one =
     \<lparr>files = [(''a'', rec_a)],
      fs = \<lparr>disk = [(''uploads/documents/a.pdf'', [1, 2, 3])], index_file = None, faulty = []\<rparr>\<rparr>"

definition store_missing :: storage where
  "store_missing =
     \<lparr>files = [(''a'', rec_a)], fs = \<lparr>disk = [], index_file = None, faulty = []\<rparr>\<rparr>"

definition store_faults :: storage where
  "store_faults =
     \<lparr>files = [(''a'', rec_a)],
      fs = \<lparr>disk = [(''uploads/documents/a.pdf'', [1, 2, 3]), (''cache/a_width=100.jpeg'', [9])],
            index_file = None, faulty = [''cache/a_width=100.jpeg'']\<rparr>\<rparr>"

text \<open>
  An upload of the bytes 1, 2, 3 as a PDF, and the record and store in which the stored
  record carries the checksum of these bytes.
\<close>

definition pdf_file :: File where
  "pdf_file = \<lparr>f_name = ''copy.pdf'', f_type = ''application/pdf'', f_size = 3, f_bytes = [1, 2, 3]\<rparr>"

definition no_options :: UploadOptions where
  "no_options =
     \<lparr>opt_generateThumbnail = None, opt_maxWidth = None, opt_maxHeight = None,
      opt_quality = None, opt_isPublic = None, opt_expiresIn = None, opt_tags = None\<rparr>"

definition default_params :: ListFilesParams where
  "default_params =
     \<lparr>p_page = None, p_limit = None, p_category = None, p_search = None, p_sortBy = None,
      p_sortOrder = None\<rparr>"

definition rec_dup :: "externals \<Rightarrow> FileMetadata" where
  "rec_dup X = rec_a\<lparr>checksum := generateChecksum X [1, 2, 3]\<rparr>"

definition store_dup :: "externals \<Rightarrow> storage" where
  "store_dup X = store_one\<lparr>files := [(''a'', rec_dup X)]\<rparr>"

text \<open>Two more records, neither expiring, and a store of three records without disk objects.\<close>

definition rec_b :: FileMetadata where
  "rec_b = rec_a\<lparr>id_m := ''b'', originalName := ''alpha.txt'', size_m := 10, uploadedAt := 700,
             expiresAt := None\<rparr>"

definition rec_c :: FileMetadata where
  "rec_c = rec_a\<lparr>id_m := ''c'', originalName := ''Beta.txt'', size_m := 5, uploadedAt := 600,
             expiresAt := None\<rparr>"

definition store_three :: storage where
  "store_three =
     \<lparr>files = [(''a'', rec_a), (''b'', rec_b), (''c'', rec_c)],
      fs = \<lparr>disk = [], index_file = None, faulty = []\<rparr>\<rparr>"

text \<open>
  Stand-ins for the external libraries (a digest that returns its input, a codec that
  reverses the bytes), an empty store, a file system holding one source image, and the
  descriptor of the \<open>avatar\<close> preset.
\<close>

definition stub_externals :: externals where
  "stub_externals =
     \<lparr>sha256 = (\<lambda>b. b), mime_lookup = (\<lambda>n. None),
      sharp_metadata = (\<lambda>b. Some (Some 1, Some 1)),
      sharp_render = (\<lambda>src ops. Some (rev src))\<rparr>"


definition fs_image :: filesystem where
  "fs_image = \<lparr>disk = [(''uploads/images/i.png'', [1, 2, 3])], index_file = None, faulty = []\<rparr>"

definition avatar :: ImageTransformOptions where
  "avatar =
     \<lparr>t_width = Some 100, t_height = Some 100, t_quality = Some 80, t_format = Some Webp,
      t_fit = Some Cover, t_blur = None, t_grayscale = None\<rparr>"



definition fs_cached :: filesystem where
  "fs_cached =
     \<lparr>disk = [(''uploads/images/i.png'', [1, 2, 3]),
              (''cache/i_fit=cover_format=webp_height=100_quality=80_width=100.webp'', [3, 2, 1])],
      index_file = None, faulty = []\<rparr>"


section \<open>Reading after writing\<close>

lemma read_write_file:
  "write_file f p b = Inr f' \<Longrightarrow> read_file f' p = Some b"
  by (auto simp: write_file_def read_file_def AList.update_conv' split: if_splits)





section \<open>Validation before any side effect\<close>

lemma validateFile_Valid_iff:
  "validateFile mt sz = Valid \<longleftrightarrow>
     sz \<le> MAX_SIZES (getFileCategory mt) \<and>
     (ALLOWED_TYPES (getFileCategory mt) = [] \<or> mt \<in> set (ALLOWED_TYPES (getFileCategory mt)))"
  by (auto simp: validateFile_def Let_def)

lemma ALLOWED_TYPES_empty_iff: "ALLOWED_TYPES c = [] \<longleftrightarrow> c = Others"
  by (cases c) (simp_all add: ALLOWED_TYPES_def)

lemma upload_invalid:
  "validateFile (resolve_mime X f) (f_size f) = Invalid r \<Longrightarrow>
   upload X st f options ident t u = (Inl (ValidationError r), st)"
  by (simp add: upload_def Let_def)

lemma cat_bmp: "getFileCategory ''image/bmp'' = Images"
  by (simp add: getFileCategory_def startsWith_def)

text \<open>
  C6. An upload whose resolved MIME type and size violate the policy of its category (the
  size is above the ceiling of the category, or the category is not \<open>others\<close> and the type
  is not on its allow-list) fails with a validation error and returns the storage it was
  given: the record map, the disk and the persisted index are all unchanged. The ceilings
  are 10MB for images, 50MB for documents, 500MB for videos, 50MB for audio and 25MB for
  others, and a type of the category \<open>others\<close> within its ceiling is always accepted.
\<close>

theorem upload_policy_violation_no_side_effect:
  assumes "f_size f > MAX_SIZES (getFileCategory (resolve_mime X f))
           \<or> (getFileCategory (resolve_mime X f) \<noteq> Others
              \<and> resolve_mime X f \<notin> set (ALLOWED_TYPES (getFileCategory (resolve_mime X f))))"
  shows "(\<exists>r. upload X st f options ident t u = (Inl (ValidationError r), st))
         \<and> MAX_SIZES Images = 10 * 1024 * 1024 \<and> MAX_SIZES Documents = 50 * 1024 * 1024
         \<and> MAX_SIZES Videos = 500 * 1024 * 1024 \<and> MAX_SIZES Audio = 50 * 1024 * 1024
         \<and> MAX_SIZES Others = 25 * 1024 * 1024
         \<and> (getFileCategory mt = Others \<and> sz \<le> MAX_SIZES Others \<longrightarrow>
              validateFile mt sz = Valid)"
proof -
  have "validateFile (resolve_mime X f) (f_size f) \<noteq> Valid"
    using assms by (auto simp: validateFile_Valid_iff ALLOWED_TYPES_empty_iff)
  then obtain r where "validateFile (resolve_mime X f) (f_size f) = Invalid r"
    by (cases "validateFile (resolve_mime X f) (f_size f)") auto
  then have "upload X st f options ident t u = (Inl (ValidationError r), st)"
    by (rule upload_invalid)
  moreover have "getFileCategory mt = Others \<and> sz \<le> MAX_SIZES Others \<longrightarrow>
                   validateFile mt sz = Valid"
    by (simp add: validateFile_Valid_iff ALLOWED_TYPES_empty_iff)
  ultimately show ?thesis by (auto simp: MAX_SIZES_def)
qed

lemma cat_zip: "getFileCategory ''application/zip'' = Others"
  by (simp add: getFileCategory_def startsWith_def includes_str_def sublist_code)

theorem upload_policy_violation_witness:
  "getFileCategory ''application/zip'' = Others
   \<and> (7 :: nat) \<le> MAX_SIZES Others
   \<and> validateFile ''application/zip'' 7 = Valid
   \<and> getFileCategory ''image/bmp'' \<noteq> Others
   \<and> ''image/bmp'' \<notin> set (ALLOWED_TYPES (getFileCategory ''image/bmp''))
   \<and> (\<forall>X st options ident t u.
        \<exists>r. upload X st \<lparr>f_name = ''a.bmp'', f_type = ''image/bmp'', f_size = 3, f_bytes = [1, 2, 3]\<rparr>
               options ident t u = (Inl (ValidationError r), st))
   \<and> (\<forall>X st options ident t u bs.
        \<exists>r. upload X st \<lparr>f_name = ''movie.mp4'', f_type = ''video/mp4'',
                           f_size = 600 * 1024 * 1024, f_bytes = bs\<rparr>
               options ident t u = (Inl (ValidationError r), st))"
proof (intro conjI allI)
  let ?g = "\<lparr>f_name = ''a.bmp'', f_type = ''image/bmp'', f_size = 3, f_bytes = [1, 2, 3]\<rparr>"
  have g: "getFileCategory (resolve_mime X ?g) \<noteq> Others
        \<and> resolve_mime X ?g \<notin> set (ALLOWED_TYPES (getFileCategory (resolve_mime X ?g)))" for X
    by (simp add: resolve_mime_def cat_bmp ALLOWED_TYPES_def)
  show z: "getFileCategory ''application/zip'' = Others" by (rule cat_zip)
  show s: "(7 :: nat) \<le> MAX_SIZES Others" by (simp add: MAX_SIZES_def)
  show "validateFile ''application/zip'' 7 = Valid"
    using upload_policy_violation_no_side_effect
            [where f = "?g" and mt = "''application/zip''" and sz = 7, OF disjI2, OF g] z s
    by blast
  show c: "getFileCategory ''image/bmp'' \<noteq> Others" by (simp add: cat_bmp)
  show a: "''image/bmp'' \<notin> set (ALLOWED_TYPES (getFileCategory ''image/bmp''))"
    by (simp add: cat_bmp ALLOWED_TYPES_def)
  fix X st options ident t u
  let ?f = "\<lparr>f_name = ''a.bmp'', f_type = ''image/bmp'', f_size = 3, f_bytes = [1, 2, 3]\<rparr>"
  have m: "resolve_mime X ?f = ''image/bmp''" by (simp add: resolve_mime_def)
  have "getFileCategory (resolve_mime X ?f) \<noteq> Others
        \<and> resolve_mime X ?f \<notin> set (ALLOWED_TYPES (getFileCategory (resolve_mime X ?f)))"
    using c a by (simp add: m)
  then show "\<exists>r. upload X st ?f options ident t u = (Inl (ValidationError r), st)"
    using upload_policy_violation_no_side_effect [where f = "?f"] by blast
next
  fix X st options ident t u bs
  let ?v = "\<lparr>f_name = ''movie.mp4'', f_type = ''video/mp4'', f_size = 600 * 1024 * 1024,
             f_bytes = bs\<rparr>"
  have "f_size ?v > MAX_SIZES (getFileCategory (resolve_mime X ?v))"
    by (simp add: resolve_mime_def getFileCategory_def startsWith_def MAX_SIZES_def)
  then show "\<exists>r. upload X st ?v options ident t u = (Inl (ValidationError r), st)"
    using upload_policy_violation_no_side_effect [where f = "?v"] by blast
qed

section \<open>Deletion\<close>

lemma faulty_unlink: "unlink f p = Inr f' \<Longrightarrow> faulty f' = faulty f"
  by (auto simp: unlink_def split: if_splits)

lemma faulty_clearCache_loop: "faulty (clearCache_loop f i ns) = faulty f"
  by (induction ns arbitrary: f) (auto split: sum.splits dest: faulty_unlink)

lemma faulty_clearCache: "faulty (clearCache f i) = faulty f"
  by (simp add: clearCache_def faulty_clearCache_loop)

lemma deleteFile_main_fails:
  "map_of (files st) ident = Some m \<Longrightarrow> unlink (fs st) (path m) = Inl e \<Longrightarrow>
   deleteFile st ident = (False, st)"
  by (simp add: deleteFile_def)

lemma deleteFile_main_ok:
  assumes m: "map_of (files st) ident = Some m" and u: "unlink (fs st) (path m) = Inr f1"
  shows "map_of (files (snd (deleteFile st ident))) ident = None
         \<and> (fst (deleteFile st ident) \<longleftrightarrow> metadataPath \<notin> set (faulty (fs st)))"
proof -
  define f2 where "f2 =
    (case thumbnailUrl m of
       None \<Rightarrow> f1
     | Some u \<Rightarrow>
         if u = [] then f1
         else (case unlink f1 (join [uploadsDir, ''thumbnails'', ident @ ''.jpg'']) of
                 Inl e \<Rightarrow> f1
               | Inr f' \<Rightarrow> f'))"
  define st1 where "st1 = st\<lparr>files := AList.delete ident (files st), fs := clearCache f2 ident\<rparr>"
  have "faulty f2 = faulty f1"
    by (auto simp: f2_def split: option.splits sum.splits dest: faulty_unlink)
  then have fl: "faulty (fs st1) = faulty (fs st)"
    using faulty_unlink [OF u] by (simp add: st1_def faulty_clearCache)
  have gone: "map_of (files st1) ident = None"
    by (simp add: st1_def AList.delete_conv')
  have d: "deleteFile st ident =
           (case saveMetadata st1 of Inl e \<Rightarrow> (False, st1) | Inr st2 \<Rightarrow> (True, st2))"
    unfolding deleteFile_def Let_def f2_def st1_def using m u by simp
  show ?thesis
    using fl gone by (auto simp: d saveMetadata_def)
qed

text \<open>
  C2, as the claim states it, fails: when the unlink of the record's own disk object
  raises (here the object is missing), \<open>deleteFile\<close> returns \<open>false\<close> and the record
  is still in the store.
\<close>

theorem deleteFile_unlink_failure_counterexample:
  "unlink (fs store_missing) (path rec_a) = Inl (IOError ''uploads/documents/a.pdf'')
   \<and> deleteFile store_missing ''a'' = (False, store_missing)
   \<and> getFile (snd (deleteFile store_missing ''a'')) ''a'' = Some rec_a"
  by (simp add: deleteFile_def store_missing_def rec_a_def unlink_def getFile_def)

text \<open>
  C2, amended. For a stored record: if the unlink of its disk object raises,
  \<open>deleteFile\<close> returns \<open>false\<close> and leaves the storage as it was; if that unlink
  succeeds, the record is removed from the store whatever happens to the unlink of the
  thumbnail and to the purge of the cache, and \<open>deleteFile\<close> returns \<open>true\<close> exactly
  when the index can be persisted.
\<close>

theorem deleteFile_cleanup_failures:
  assumes "map_of (files st) ident = Some m"
  shows "(\<forall>e. unlink (fs st) (path m) = Inl e \<longrightarrow> deleteFile st ident = (False, st))
       \<and> (\<forall>f1. unlink (fs st) (path m) = Inr f1 \<longrightarrow>
             map_of (files (snd (deleteFile st ident))) ident = None
             \<and> (fst (deleteFile st ident) \<longleftrightarrow> metadataPath \<notin> set (faulty (fs st))))"
  using assms deleteFile_main_fails deleteFile_main_ok by blast

theorem deleteFile_cleanup_failures_witness:
  "map_of (files store_faults) ''a'' = Some rec_a
   \<and> unlink (fs store_faults) (path rec_a)
       = Inr \<lparr>disk = [(''cache/a_width=100.jpeg'', [9])], index_file = None,
              faulty = [''cache/a_width=100.jpeg'']\<rparr>
   \<and> unlink \<lparr>disk = [(''cache/a_width=100.jpeg'', [9])], index_file = None,
              faulty = [''cache/a_width=100.jpeg'']\<rparr> ''uploads/thumbnails/a.jpg''
       = Inl (IOError ''uploads/thumbnails/a.jpg'')
   \<and> unlink \<lparr>disk = [(''cache/a_width=100.jpeg'', [9])], index_file = None,
              faulty = [''cache/a_width=100.jpeg'']\<rparr> ''cache/a_width=100.jpeg''
       = Inl (IOError ''cache/a_width=100.jpeg'')
   \<and> metadataPath \<notin> set (faulty (fs store_faults))
   \<and> fst (deleteFile store_faults ''a'')
   \<and> map_of (files (snd (deleteFile store_faults ''a''))) ''a'' = None"
proof -
  have m: "map_of (files store_faults) ''a'' = Some rec_a"
    by (simp add: store_faults_def)
  have u: "unlink (fs store_faults) (path rec_a)
       = Inr \<lparr>disk = [(''cache/a_width=100.jpeg'', [9])], index_file = None,
              faulty = [''cache/a_width=100.jpeg'']\<rparr>"
    by (simp add: store_faults_def rec_a_def unlink_def AList.delete_eq)
  have p: "metadataPath \<notin> set (faulty (fs store_faults))"
    by (simp add: store_faults_def metadataPath_def)
  show ?thesis
    using deleteFile_cleanup_failures [OF m] u p m
    by (simp add: unlink_def)
qed

section \<open>Updates\<close>

lemma keys_update_present:
  "map_of al k = Some v \<Longrightarrow> map fst (AList.update k v' al) = map fst al"
  by (induction al) (auto split: if_splits)

lemma updateFile_result:
  assumes m: "map_of (files st) ident = Some m"
  shows "updateFile st ident upd =
           (let m' = m\<lparr>isPublic := (case upd_isPublic upd of None \<Rightarrow> isPublic m | Some b \<Rightarrow> b),
                     tags := (case upd_tags upd of None \<Rightarrow> tags m | Some t \<Rightarrow> Some t),
                     expiresAt := (case upd_expiresAt upd of None \<Rightarrow> expiresAt m | Some e \<Rightarrow> Some e)\<rparr>;
                st1 = st\<lparr>files := AList.update ident m' (files st)\<rparr>
            in case saveMetadata st1 of Inl e \<Rightarrow> (Inl e, st1) | Inr st2 \<Rightarrow> (Inr (Some m'), st2))"
  using m
  by (cases "upd_isPublic upd"; cases "upd_tags upd"; cases "upd_expiresAt upd")
     (simp_all add: updateFile_def Let_def split: sum.splits)

text \<open>
  C10. \<open>updateFile\<close> on a stored id leaves, under that id, the old record with
  \<open>isPublic\<close>, \<open>tags\<close> and \<open>expiresAt\<close> replaced where the update defines them and kept
  where it does not; every other field of the record, every other record, the order of
  the keys and the disk are unchanged. With \<open>expiresAt\<close> undefined in the update the
  expiration stays as it was, and an expiration that was set is still set afterwards.
  When the index can be persisted, the record returned is the updated one.
\<close>

theorem updateFile_frame:
  assumes m: "map_of (files st) ident = Some m"
  shows "map_of (files (snd (updateFile st ident upd))) ident =
           Some (m\<lparr>isPublic := (case upd_isPublic upd of None \<Rightarrow> isPublic m | Some b \<Rightarrow> b),
                   tags := (case upd_tags upd of None \<Rightarrow> tags m | Some t \<Rightarrow> Some t),
                   expiresAt := (case upd_expiresAt upd of None \<Rightarrow> expiresAt m | Some e \<Rightarrow> Some e)\<rparr>)
       \<and> (\<forall>k. k \<noteq> ident \<longrightarrow>
             map_of (files (snd (updateFile st ident upd))) k = map_of (files st) k)
       \<and> map fst (files (snd (updateFile st ident upd))) = map fst (files st)
       \<and> disk (fs (snd (updateFile st ident upd))) = disk (fs st)
       \<and> (upd_expiresAt upd = None \<longrightarrow>
             (\<forall>m'. map_of (files (snd (updateFile st ident upd))) ident = Some m'
                   \<longrightarrow> expiresAt m' = expiresAt m))
       \<and> (expiresAt m \<noteq> None \<longrightarrow>
             (\<forall>m'. map_of (files (snd (updateFile st ident upd))) ident = Some m'
                   \<longrightarrow> expiresAt m' \<noteq> None))
       \<and> (metadataPath \<notin> set (faulty (fs st)) \<longrightarrow>
             fst (updateFile st ident upd) =
               Inr (map_of (files (snd (updateFile st ident upd))) ident))"
  unfolding updateFile_result [OF m] Let_def
  using m
  by (auto simp: saveMetadata_def AList.update_conv' keys_update_present split: option.splits)

theorem updateFile_frame_witness:
  "map_of (files store_one) ''a'' = Some rec_a
   \<and> expiresAt rec_a = Some 1000
   \<and> metadataPath \<notin> set (faulty (fs store_one))
   \<and> map_of (files (snd (updateFile store_one ''a''
          \<lparr>upd_isPublic = Some False, upd_tags = None, upd_expiresAt = None\<rparr>))) ''a''
       = Some (rec_a\<lparr>isPublic := False\<rparr>)
   \<and> fst (updateFile store_one ''a''
          \<lparr>upd_isPublic = Some False, upd_tags = None, upd_expiresAt = None\<rparr>)
       = Inr (Some (rec_a\<lparr>isPublic := False\<rparr>))"
proof -
  have m: "map_of (files store_one) ''a'' = Some rec_a"
    by (simp add: store_one_def)
  have p: "metadataPath \<notin> set (faulty (fs store_one))"
    by (simp add: store_one_def)
  have e: "expiresAt rec_a = Some 1000"
    by (simp add: rec_a_def)
  show ?thesis
    using updateFile_frame [OF m,
        of "\<lparr>upd_isPublic = Some False, upd_tags = None, upd_expiresAt = None\<rparr>"] m p e
    by (simp add: rec_a_def)
qed

section \<open>Pagination\<close>

lemma totalPages_int: "\<lceil>real n / real_of_int l\<rceil> = - ((- int n) div l)"
  using ceiling_divide_eq_div [of "int n" l] by simp

lemma slice_page_nat:
  "slice xs (int s) (int s + int l) = take l (drop s xs)"
proof (cases "s \<le> length xs")
  case True
  show ?thesis
  proof (cases "s + l \<le> length xs")
    case True
    with \<open>s \<le> length xs\<close> show ?thesis
      by (simp add: slice_def Let_def min_def)
  next
    case False
    with \<open>s \<le> length xs\<close> have "nat (min (int s + int l) (int (length xs)) - min (int s) (int (length xs)))
        = length xs - s"
      by (simp add: min_def)
    with False \<open>s \<le> length xs\<close> show ?thesis
      by (simp add: slice_def Let_def)
  qed
next
  case False
  then show ?thesis
    by (simp add: slice_def Let_def min_def)
qed

lemma slice_page:
  assumes "0 \<le> s" "0 \<le> l"
  shows "slice xs s (s + l) = take (nat l) (drop (nat s) xs)"
  using slice_page_nat [of xs "nat s" "nat l"] assms by simp

lemma length_slice_le: "0 \<le> l \<Longrightarrow> int (length (slice xs s (s + l))) \<le> l"
  by (auto simp: slice_def Let_def min_def max_def)

lemma concat_chunks:
  "concat (map (\<lambda>i. take l (drop (i * l) xs)) [0..<k]) = take (k * l) xs"
proof (induction k)
  case 0
  then show ?case by simp
next
  case (Suc k)
  have "take (k * l) xs @ take l (drop (k * l) xs) = take (k * l + l) xs"
    by (simp add: take_add)
  with Suc show ?case by (simp add: add.commute)
qed

lemma upto_as_upt: "[1..int k] = map (\<lambda>i. int i + 1) [0..<k]"
proof (induction k)
  case 0
  then show ?case by simp
next
  case (Suc k)
  have "[1..int (Suc k)] = [1..int k] @ [int k + 1]"
    using upto_rec2 [of 1 "int (Suc k)"] by (simp add: add.commute)
  with Suc show ?case by simp
qed

lemma fileArray_page [simp]: "fileArray st (params\<lparr>p_page := pg\<rparr>) = fileArray st params"
  by (simp add: fileArray_def)

lemma pages_cover:
  assumes "0 < l"
  shows "length xs \<le> nat (- ((- int (length xs)) div l)) * nat l"
proof -
  have "real (length xs) / real_of_int l \<le> real_of_int \<lceil>real (length xs) / real_of_int l\<rceil>"
    by (rule le_of_int_ceiling)
  then have "real (length xs) \<le> real_of_int (- ((- int (length xs)) div l)) * real_of_int l"
    using assms by (simp add: totalPages_int pos_divide_le_eq)
  then have "int (length xs) \<le> (- ((- int (length xs)) div l)) * l"
    by (metis of_int_le_iff of_int_mult of_int_of_nat_eq)
  moreover have "0 \<le> - ((- int (length xs)) div l)"
    using assms by (simp add: div_nonpos_pos_le0)
  ultimately show ?thesis
    using assms by (metis nat_int nat_mono nat_mult_distrib)
qed


lemma listFiles_files:
  "r_files (listFiles st (params\<lparr>p_page := Some p\<rparr>)) =
     (let limit = (case p_limit params of None \<Rightarrow> 20 | Some l \<Rightarrow> l)
      in slice (fileArray st params) ((p - 1) * limit) ((p - 1) * limit + limit))"
  by (simp add: listFiles_def Let_def)

lemma listFiles_page_nat:
  assumes "0 < l" "(case p_limit params of None \<Rightarrow> 20 | Some l \<Rightarrow> l) = l"
  shows "r_files (listFiles st (params\<lparr>p_page := Some (int i + 1)\<rparr>)) =
           take (nat l) (drop (i * nat l) (fileArray st params))"
proof -
  have "nat (int i * l) = i * nat l"
    using assms(1) by (simp add: nat_mult_distrib)
  moreover have "0 \<le> int i * l"
    using assms(1) by simp
  ultimately show ?thesis
    using assms slice_page [of "int i * l" l "fileArray st params"]
    by (simp add: listFiles_files Let_def)
qed

text \<open>
  C7. With a positive limit (the one given, or the default 20), \<open>listFiles\<close> reports
  the length of the filtered and sorted array as total and the ceiling of total over
  limit as totalPages; the page it returns holds at most limit records; a page number
  above totalPages yields the empty list; and the pages 1 to totalPages, concatenated in
  order, are the filtered and sorted array.
\<close>

theorem listFiles_pagination:
  assumes L: "0 < (case p_limit params of None \<Rightarrow> 20 | Some l \<Rightarrow> l)"
  shows "r_total (listFiles st params) = length (fileArray st params)
       \<and> r_totalPages (listFiles st params) =
           \<lceil>real (length (fileArray st params))
              / real_of_int (case p_limit params of None \<Rightarrow> 20 | Some l \<Rightarrow> l)\<rceil>
       \<and> int (length (r_files (listFiles st params)))
           \<le> (case p_limit params of None \<Rightarrow> 20 | Some l \<Rightarrow> l)
       \<and> (\<forall>p. r_totalPages (listFiles st params) < p \<longrightarrow>
              r_files (listFiles st (params\<lparr>p_page := Some p\<rparr>)) = [])
       \<and> concat (map (\<lambda>p. r_files (listFiles st (params\<lparr>p_page := Some p\<rparr>)))
                  [1..r_totalPages (listFiles st params)])
           = fileArray st params"
proof -
  define l where "l = (case p_limit params of None \<Rightarrow> 20 | Some l \<Rightarrow> l)"
  define arr where "arr = fileArray st params"
  define k where "k = nat (- ((- int (length arr)) div l))"
  have lpos: "0 < l" using L by (simp add: l_def)
  have tp: "r_totalPages (listFiles st params) = - ((- int (length arr)) div l)"
    by (simp add: listFiles_def Let_def totalPages_int l_def arr_def)
  have nonneg: "0 \<le> - ((- int (length arr)) div l)"
    using lpos by (simp add: div_nonpos_pos_le0)
  then have tpk: "r_totalPages (listFiles st params) = int k"
    by (simp add: tp k_def)
  have cover: "length arr \<le> k * nat l"
    unfolding k_def using pages_cover [OF lpos] .
  have total: "r_total (listFiles st params) = length arr"
    by (simp add: listFiles_def Let_def arr_def)
  have pages: "r_totalPages (listFiles st params) = \<lceil>real (length arr) / real_of_int l\<rceil>"
    by (simp add: listFiles_def Let_def l_def arr_def)
  have atmost: "int (length (r_files (listFiles st params))) \<le> l"
    using lpos length_slice_le [of l arr] by (simp add: listFiles_def Let_def l_def arr_def)
  have beyond: "r_files (listFiles st (params\<lparr>p_page := Some p\<rparr>)) = []"
    if "r_totalPages (listFiles st params) < p" for p
  proof -
    from that tpk have "int k \<le> p - 1" by simp
    then obtain i where i: "p = int i + 1" and ki: "k \<le> i"
      by (metis add.commute diff_add_cancel nat_le_iff nonneg_int_cases of_nat_0_le_iff order_trans nat_int)
    have "length arr \<le> i * nat l"
      using cover ki by (meson le_trans mult_le_mono1)
    then show ?thesis
      using listFiles_page_nat [OF lpos, of params st i] by (simp add: i l_def arr_def)
  qed
  have "concat (map (\<lambda>p. r_files (listFiles st (params\<lparr>p_page := Some p\<rparr>))) [1..int k])
          = concat (map (\<lambda>i. take (nat l) (drop (i * nat l) arr)) [0..<k])"
    using listFiles_page_nat [OF lpos, of params st]
    by (simp add: upto_as_upt comp_def l_def arr_def)
  also have "\<dots> = take (k * nat l) arr"
    by (rule concat_chunks)
  also have "\<dots> = arr"
    using cover by simp
  finally have all: "concat (map (\<lambda>p. r_files (listFiles st (params\<lparr>p_page := Some p\<rparr>)))
                        [1..r_totalPages (listFiles st params)]) = arr"
    by (simp add: tpk)
  show ?thesis
    using total pages atmost beyond all unfolding l_def arr_def by blast
qed

lemma fileArray_three_default:
  "fileArray store_three (default_params\<lparr>p_limit := Some 2\<rparr>) = [rec_b, rec_c, rec_a]"
  by (simp add: fileArray_def store_three_def default_params_def array_sort_def compare_files_def
       field_val_def lower_val_def rec_a_def rec_b_def rec_c_def Let_def)

theorem listFiles_pagination_witness:
  "0 < (case p_limit (default_params\<lparr>p_limit := Some 2\<rparr>) of None \<Rightarrow> 20 | Some l \<Rightarrow> l)
   \<and> fileArray store_three (default_params\<lparr>p_limit := Some 2\<rparr>) = [rec_b, rec_c, rec_a]
   \<and> r_totalPages (listFiles store_three (default_params\<lparr>p_limit := Some 2\<rparr>)) = 2
   \<and> r_files (listFiles store_three (default_params\<lparr>p_limit := Some 2, p_page := Some 3\<rparr>)) = []
   \<and> concat (map (\<lambda>p. r_files (listFiles store_three
                      (default_params\<lparr>p_limit := Some 2, p_page := Some p\<rparr>))) [1..2])
       = [rec_b, rec_c, rec_a]"
proof -
  have L: "0 < (case p_limit (default_params\<lparr>p_limit := Some 2\<rparr>) of None \<Rightarrow> 20 | Some l \<Rightarrow> l)"
    by simp
  have tp: "r_totalPages (listFiles store_three (default_params\<lparr>p_limit := Some 2\<rparr>)) = 2"
    by (simp add: listFiles_def Let_def totalPages_int fileArray_three_default)
  show ?thesis
    using listFiles_pagination [OF L, of store_three] L tp
    by (simp add: fileArray_three_default)
qed

section \<open>Sorting\<close>

lemma set_insert_cmp: "set (insert_cmp c x ys) = insert x (set ys)"
  by (induction ys) auto

lemma sorted_wrt_insert_cmp:
  assumes tr: "\<And>a b d. R a b \<Longrightarrow> R b d \<Longrightarrow> R a d"
    and tot: "\<And>a b. R a b \<or> R b a"
    and c: "\<And>a b. c a b \<le> 0 \<longleftrightarrow> R a b"
  shows "sorted_wrt R ys \<Longrightarrow> sorted_wrt R (insert_cmp c x ys)"
proof (induction ys)
  case Nil
  then show ?case by simp
next
  case (Cons y ys)
  show ?case
  proof (cases "c x y \<le> 0")
    case True
    then have "R x y" by (simp add: c)
    then have "\<forall>z\<in>set (y # ys). R x z"
      using Cons.prems tr by auto
    with True Cons.prems show ?thesis by simp
  next
    case False
    then have "R y x" using tot [of x y] by (simp add: c)
    with False Cons show ?thesis by (simp add: set_insert_cmp)
  qed
qed

lemma sorted_wrt_array_sort:
  assumes "\<And>a b d. R a b \<Longrightarrow> R b d \<Longrightarrow> R a d" "\<And>a b. R a b \<or> R b a"
    and "\<And>a b. c a b \<le> 0 \<longleftrightarrow> R a b"
  shows "sorted_wrt R (array_sort c xs)"
  unfolding array_sort_def
  by (induction xs) (simp_all add: sorted_wrt_insert_cmp [of R c, OF assms])

lemma sorted_wrt_slice: "sorted_wrt R xs \<Longrightarrow> sorted_wrt R (slice xs s e)"
  by (simp add: slice_def Let_def sorted_wrt_take sorted_wrt_drop)

lemma sorted_key_array_sort:
  fixes k :: "'a \<Rightarrow> 'b::linorder"
  assumes "\<And>a b. c a b \<le> 0 \<longleftrightarrow> k a \<le> k b"
  shows "sorted (map k (slice (array_sort c xs) s e))"
proof -
  have "sorted_wrt (\<lambda>a b. k a \<le> k b) (array_sort c xs)"
    by (rule sorted_wrt_array_sort) (use assms in auto)
  then show ?thesis
    by (simp add: sorted_wrt_slice sorted_map)
qed

lemma sorted_rev_key_array_sort:
  fixes k :: "'a \<Rightarrow> 'b::linorder"
  assumes "\<And>a b. c a b \<le> 0 \<longleftrightarrow> k b \<le> k a"
  shows "sorted (rev (map k (slice (array_sort c xs) s e)))"
proof -
  have "sorted_wrt (\<lambda>a b. k b \<le> k a) (array_sort c xs)"
    by (rule sorted_wrt_array_sort) (use assms in auto)
  then have "sorted_wrt (\<lambda>a b. k b \<le> k a) (slice (array_sort c xs) s e)"
    by (rule sorted_wrt_slice)
  then show ?thesis
    by (simp add: sorted_wrt_rev sorted_wrt_map flip: rev_map)
qed

lemma compare_asc:
  "compare_files UploadedAt Asc a b \<le> 0 \<longleftrightarrow> uploadedAt a \<le> uploadedAt b"
  "compare_files Size Asc a b \<le> 0 \<longleftrightarrow> size_m a \<le> size_m b"
  "compare_files Downloads Asc a b \<le> 0 \<longleftrightarrow> downloads a \<le> downloads b"
  "compare_files OriginalName Asc a b \<le> 0 \<longleftrightarrow>
     toLowerCase (originalName a) \<le> toLowerCase (originalName b)"
  by (auto simp: compare_files_def field_val_def lower_val_def Let_def)

lemma compare_desc:
  "compare_files UploadedAt Desc a b \<le> 0 \<longleftrightarrow> uploadedAt b \<le> uploadedAt a"
  "compare_files Size Desc a b \<le> 0 \<longleftrightarrow> size_m b \<le> size_m a"
  "compare_files Downloads Desc a b \<le> 0 \<longleftrightarrow> downloads b \<le> downloads a"
  "compare_files OriginalName Desc a b \<le> 0 \<longleftrightarrow>
     toLowerCase (originalName b) \<le> toLowerCase (originalName a)"
  by (auto simp: compare_files_def field_val_def lower_val_def Let_def)


text \<open>
  C8. The records \<open>listFiles\<close> returns are ordered by the requested key (by default
  \<open>uploadedAt\<close>, descending): ascending order leaves the numeric keys \<open>uploadedAt\<close>,
  \<open>size\<close> and \<open>downloads\<close> non-decreasing and the lower-cased \<open>originalName\<close>
  non-decreasing in the order of strings; descending order leaves the same keys
  non-increasing. For \<open>sortBy = size\<close> and \<open>sortOrder = asc\<close> every adjacent pair
  satisfies \<open>size[i] <= size[i+1]\<close>.
\<close>

theorem listFiles_sorted:
  assumes "sortBy = (case p_sortBy params of None \<Rightarrow> UploadedAt | Some k \<Rightarrow> k)"
    and "sortOrder = (case p_sortOrder params of None \<Rightarrow> Desc | Some d \<Rightarrow> d)"
    and "res = r_files (listFiles st params)"
  shows "(sortOrder = Asc \<longrightarrow>
            (case sortBy of
               UploadedAt \<Rightarrow> sorted (map uploadedAt res)
             | Size \<Rightarrow> sorted (map size_m res)
             | OriginalName \<Rightarrow> sorted (map (\<lambda>f. toLowerCase (originalName f)) res)
             | Downloads \<Rightarrow> sorted (map downloads res)))
       \<and> (sortOrder = Desc \<longrightarrow>
            (case sortBy of
               UploadedAt \<Rightarrow> sorted (rev (map uploadedAt res))
             | Size \<Rightarrow> sorted (rev (map size_m res))
             | OriginalName \<Rightarrow> sorted (rev (map (\<lambda>f. toLowerCase (originalName f)) res))
             | Downloads \<Rightarrow> sorted (rev (map downloads res))))
       \<and> (sortBy = Size \<and> sortOrder = Asc \<longrightarrow>
            (\<forall>i. Suc i < length res \<longrightarrow> size_m (res ! i) \<le> size_m (res ! Suc i)))"
proof -
  obtain xs s e where res: "res = slice (array_sort (compare_files sortBy sortOrder) xs) s e"
    unfolding assms listFiles_def fileArray_def Let_def by auto
  have asc: "sortOrder = Asc \<Longrightarrow>
            (case sortBy of
               UploadedAt \<Rightarrow> sorted (map uploadedAt res)
             | Size \<Rightarrow> sorted (map size_m res)
             | OriginalName \<Rightarrow> sorted (map (\<lambda>f. toLowerCase (originalName f)) res)
             | Downloads \<Rightarrow> sorted (map downloads res))"
    unfolding res by (cases sortBy) (simp_all add: sorted_key_array_sort compare_asc)
  have desc: "sortOrder = Desc \<Longrightarrow>
            (case sortBy of
               UploadedAt \<Rightarrow> sorted (rev (map uploadedAt res))
             | Size \<Rightarrow> sorted (rev (map size_m res))
             | OriginalName \<Rightarrow> sorted (rev (map (\<lambda>f. toLowerCase (originalName f)) res))
             | Downloads \<Rightarrow> sorted (rev (map downloads res)))"
    unfolding res by (cases sortBy) (simp_all add: sorted_rev_key_array_sort compare_desc)
  have adj: "size_m (res ! i) \<le> size_m (res ! Suc i)"
    if "sortBy = Size" "sortOrder = Asc" "Suc i < length res" for i
  proof -
    from asc that have "sorted (map size_m res)" by simp
    with that(3) show ?thesis
      by (simp add: sorted_iff_nth_Suc)
  qed
  show ?thesis using asc desc adj by blast
qed

lemma default_params_sel: "p_page default_params = None" "p_limit default_params = None"
  by (simp_all add: default_params_def)

lemma fileArray_three_size:
  "fileArray store_three (default_params\<lparr>p_sortBy := Some Size, p_sortOrder := Some Asc\<rparr>)
     = [rec_a, rec_c, rec_b]"
  by (simp add: fileArray_def store_three_def default_params_def array_sort_def compare_files_def
       field_val_def lower_val_def rec_a_def rec_b_def rec_c_def Let_def)

lemma fileArray_three_name:
  "fileArray store_three (default_params\<lparr>p_sortBy := Some OriginalName, p_sortOrder := Some Asc\<rparr>)
     = [rec_b, rec_c, rec_a]"
  by (simp add: fileArray_def store_three_def default_params_def array_sort_def compare_files_def
       field_val_def lower_val_def toLowerCase_def lower_char_def rec_a_def rec_b_def rec_c_def
       less_char_def Let_def char_of_def bit_Suc_0_iff)

theorem listFiles_sorted_witness:
  "map originalName
     (r_files (listFiles store_three
        (default_params\<lparr>p_sortBy := Some OriginalName, p_sortOrder := Some Asc\<rparr>)))
     = [''alpha.txt'', ''Beta.txt'', ''Report.PDF'']
   \<and> r_files (listFiles store_three (default_params\<lparr>p_sortBy := Some Size, p_sortOrder := Some Asc\<rparr>))
     = [rec_a, rec_c, rec_b]
   \<and> map size_m [rec_a, rec_c, rec_b] = [3, 5, 10]
   \<and> sorted (map size_m
         (r_files (listFiles store_three
            (default_params\<lparr>p_sortBy := Some Size, p_sortOrder := Some Asc\<rparr>))))
   \<and> size_m (r_files (listFiles store_three
                  (default_params\<lparr>p_sortBy := Some Size, p_sortOrder := Some Asc\<rparr>)) ! 1)
       \<le> size_m (r_files (listFiles store_three
                  (default_params\<lparr>p_sortBy := Some Size, p_sortOrder := Some Asc\<rparr>)) ! Suc 1)"
proof -
  let ?P = "default_params\<lparr>p_sortBy := Some Size, p_sortOrder := Some Asc\<rparr>"
  have r: "r_files (listFiles store_three ?P) = [rec_a, rec_c, rec_b]"
    by (simp add: listFiles_def Let_def fileArray_three_size slice_def default_params_sel)
  have s: "map size_m [rec_a, rec_c, rec_b] = [3, 5, 10]"
    by (simp add: rec_a_def rec_b_def rec_c_def)
  have n: "map originalName
     (r_files (listFiles store_three
        (default_params\<lparr>p_sortBy := Some OriginalName, p_sortOrder := Some Asc\<rparr>)))
     = [''alpha.txt'', ''Beta.txt'', ''Report.PDF'']"
    by (simp add: listFiles_def Let_def fileArray_three_name slice_def default_params_sel)
       (simp add: rec_a_def rec_b_def rec_c_def)
  have t: "sorted (map size_m (r_files (listFiles store_three ?P)))
        \<and> (\<forall>i. Suc i < length (r_files (listFiles store_three ?P)) \<longrightarrow>
              size_m (r_files (listFiles store_three ?P) ! i)
              \<le> size_m (r_files (listFiles store_three ?P) ! Suc i))"
    using listFiles_sorted [of Size ?P Asc "r_files (listFiles store_three ?P)" store_three]
    by simp
  have "Suc 1 < length (r_files (listFiles store_three ?P))"
    by (simp add: r)
  with t have "size_m (r_files (listFiles store_three ?P) ! 1)
               \<le> size_m (r_files (listFiles store_three ?P) ! Suc 1)"
    by blast
  with r s t n show ?thesis by blast
qed

section \<open>Expired records\<close>

lemma expired_a: "is_expired rec_a 5000"
  by (simp add: is_expired_def rec_a_def)

lemma fileArray_store_one: "fileArray store_one default_params = [rec_a]"
  by (simp add: fileArray_def store_one_def array_sort_def default_params_def)

lemma valid_pdf: "validateFile ''application/pdf'' 3 = Valid"
  by (simp add: validateFile_def getFileCategory_def startsWith_def MAX_SIZES_def
        ALLOWED_TYPES_def Let_def)

text \<open>
  C1. The code at a store whose only record expired at time 1000, read at time 5000:
  \<open>getFileContent\<close> returns \<open>null\<close>, but \<open>getFile\<close> returns the record and
  \<open>listFiles\<close> lists it and counts it in its total. The expiration test of
  \<open>getFileContent\<close> is not applied by the other two read paths.
\<close>

theorem read_paths_return_expired_record:
  "is_expired rec_a 5000
   \<and> fst (getFileContent store_one ''a'' 5000) = Inr None
   \<and> getFile store_one ''a'' = Some rec_a
   \<and> r_files (listFiles store_one default_params) = [rec_a]
   \<and> r_total (listFiles store_one default_params) = 1"
proof -
  have g: "getFile store_one ''a'' = Some rec_a"
    by (simp add: getFile_def store_one_def)
  have l: "listFiles store_one default_params =
             \<lparr>r_files = [rec_a], r_total = 1, r_page = 1, r_totalPages = 1\<rparr>"
    by (simp add: listFiles_def fileArray_store_one [unfolded default_params_def] slice_def
          default_params_def Let_def totalPages_int)
  have c: "fst (getFileContent store_one ''a'' 5000) = Inr None"
    using g expired_a by (simp add: getFileContent_def getFile_def)
  show ?thesis using g l c expired_a by simp
qed

text \<open>
  C4. The code at a store whose only record expired at time 1000 and carries the checksum
  of the bytes 1, 2, 3: an upload of these bytes at time 5000 returns the expired record
  and leaves the storage as it was, with no byte written and no record created. The
  duplicate check of \<open>upload\<close> compares checksums only.
\<close>

theorem upload_returns_expired_duplicate:
  "is_expired (rec_dup X) 5000
   \<and> upload X (store_dup X) pdf_file no_options ''b'' 5000 5000 = (Inr (rec_dup X), store_dup X)"
  by (simp add: upload_def resolve_mime_def valid_pdf find_duplicate_def is_expired_def rec_a_def
        rec_dup_def store_dup_def pdf_file_def Let_def)

text \<open>
  C5. The code at a store whose only record expired at time 1000 and whose disk object is
  missing, swept at time 5000: \<open>deleteFile\<close> fails on the record and leaves it in the
  store, and \<open>cleanupExpired\<close> returns 1 although no record was deleted. The counter is
  incremented whatever \<open>deleteFile\<close> returns.
\<close>

theorem cleanupExpired_counts_failed_delete:
  "is_expired rec_a 5000
   \<and> deleteFile store_missing ''a'' = (False, store_missing)
   \<and> cleanupExpired store_missing 5000 = (1, store_missing)
   \<and> getFile (snd (cleanupExpired store_missing 5000)) ''a'' = Some rec_a"
proof -
  have d: "deleteFile store_missing ''a'' = (False, store_missing)"
    by (simp add: deleteFile_def store_missing_def rec_a_def unlink_def)
  have c: "cleanupExpired store_missing 5000 = (1, store_missing)"
    using d expired_a by (simp add: cleanupExpired_def store_missing_def)
  show ?thesis
    using d c expired_a by (simp add: getFile_def store_missing_def)
qed

section \<open>Deduplication\<close>





















section \<open>The transform cache\<close>

lemma getCachedTransform_hit:
  "read_file f (cachePath fileId options) = Some b \<Longrightarrow>
   getCachedTransform X f fileId inputPath options = (Inr (b, True), f)"
  by (simp add: getCachedTransform_def)

lemma insert_cmp_insort_key:
  fixes k :: "'a \<Rightarrow> 'b::linorder"
  assumes "\<And>a b. c a b \<le> 0 \<longleftrightarrow> k a \<le> k b"
  shows "insert_cmp c x ys = insort_key k x ys"
  by (induction ys) (simp_all add: assms)

lemma array_sort_sort_key:
  fixes k :: "'a \<Rightarrow> 'b::linorder"
  assumes "\<And>a b. c a b \<le> 0 \<longleftrightarrow> k a \<le> k b"
  shows "array_sort c xs = sort_key k xs"
  unfolding array_sort_def sort_key_def
  by (induction xs) (simp_all add: insert_cmp_insort_key [of c k, OF assms])

lemma localeCompare_le: "localeCompare a b \<le> 0 \<longleftrightarrow> a \<le> b"
  by (auto simp: localeCompare_def)

lemma filter_key_distinct:
  "distinct (map k xs) \<Longrightarrow> x \<in> set xs \<Longrightarrow> filter (\<lambda>y. k x = k y) xs = [x]"
proof (induction xs)
  case Nil
  then show ?case by simp
next
  case (Cons a xs)
  then show ?case
    by (auto simp: filter_empty_conv image_iff) 
qed

lemma sort_key_perm_distinct:
  fixes k :: "'a \<Rightarrow> 'b::linorder"
  assumes "mset xs = mset ys" "distinct (map k xs)"
  shows "sort_key k xs = sort_key k ys"
proof -
  have dy: "distinct (map k ys)"
    using assms by (metis distinct_map mset_eq_setD mset_map mset_eq_imp_distinct_iff)
  have "sort_key k ys = sort_key k xs"
  proof (rule properties_for_sort_key)
    show "mset (sort_key k xs) = mset ys" using assms by simp
    show "sorted (map k (sort_key k xs))" by simp
    fix x assume "x \<in> set (sort_key k xs)"
    then have x: "x \<in> set xs" "x \<in> set ys"
      using assms(1) by (simp_all add: mset_eq_setD flip: set_mset_mset)
    have "distinct (map k (sort_key k xs))"
      using assms(2) by (simp add: distinct_map)
    then have "filter (\<lambda>y. k x = k y) (sort_key k xs) = [x]"
      using x by (simp add: filter_key_distinct)
    moreover have "filter (\<lambda>y. k x = k y) ys = [x]"
      using dy x by (simp add: filter_key_distinct)
    ultimately show "filter (\<lambda>y. k x = k y) (sort_key k xs) = filter (\<lambda>y. k x = k y) ys"
      by simp
  qed
  then show ?thesis by simp
qed

lemma generateCacheKey_perm:
  assumes "mset [(k, v). (k, Some v) \<leftarrow> es] = mset [(k, v). (k, Some v) \<leftarrow> es']"
    and "distinct (map fst [(k, v). (k, Some v) \<leftarrow> es])"
  shows "generateCacheKey fileId es = generateCacheKey fileId es'"
proof -
  have c: "\<And>a b :: string \<times> js_value. localeCompare (fst a) (fst b) \<le> 0 \<longleftrightarrow> fst a \<le> fst b"
    by (simp add: localeCompare_le)
  show ?thesis
    unfolding generateCacheKey_def Let_def array_sort_sort_key [of _ fst, OF c]
    using sort_key_perm_distinct [OF assms] by simp
qed

lemma getCachedTransform_second:
  assumes "getCachedTransform X f fileId inputPath options = (Inr (buffer, cached), f')"
  shows "getCachedTransform X f' fileId inputPath options = (Inr (buffer, True), f')
         \<and> (cached \<longleftrightarrow> exists_file f (cachePath fileId options))"
proof (cases "read_file f (cachePath fileId options)")
  case (Some b)
  with assms show ?thesis
    by (auto simp: getCachedTransform_def exists_file_def read_file_def)
next
  case None
  with assms obtain b where w: "write_file f (cachePath fileId options) b = Inr f'"
    and b: "buffer = b" "cached = False"
    by (auto simp: getCachedTransform_def split: sum.splits)
  from read_write_file [OF w] b None show ?thesis
    by (simp add: getCachedTransform_hit exists_file_def read_file_def)
qed

lemma getCachedTransform_first_miss:
  assumes "read_file f (cachePath fileId options) = None"
    and "transform X f inputPath options = Inr buffer"
    and "cachePath fileId options \<notin> set (faulty f)"
  shows "fst (getCachedTransform X f fileId inputPath options) = Inr (buffer, False)"
  using assms by (simp add: getCachedTransform_def write_file_def)

text \<open>
  C9. When \<open>getCachedTransform\<close> has returned bytes for a file id and a descriptor, the
  next call with the same id and descriptor returns the same bytes with
  \<open>cached = true\<close> and leaves the file system as it is; the first call reported
  \<open>cached = false\<close> exactly when no artifact was stored at the key. On a cold cache,
  when the transform succeeds and the artifact can be written, the first call returns the
  transformed bytes with \<open>cached = false\<close>. The key is the same for two option
  objects whose defined entries are the same up to their order.
\<close>

theorem getCachedTransform_twice:
  "(getCachedTransform X f fileId inputPath options = (Inr (buffer, cached), f') \<longrightarrow>
      getCachedTransform X f' fileId inputPath options = (Inr (buffer, True), f')
      \<and> (cached \<longleftrightarrow> exists_file f (cachePath fileId options)))
   \<and> (read_file f (cachePath fileId options) = None
        \<and> transform X f inputPath options = Inr buffer
        \<and> cachePath fileId options \<notin> set (faulty f) \<longrightarrow>
      fst (getCachedTransform X f fileId inputPath options) = Inr (buffer, False))
   \<and> (mset [(k, v). (k, Some v) \<leftarrow> es] = mset [(k, v). (k, Some v) \<leftarrow> es']
        \<and> distinct (map fst [(k, v). (k, Some v) \<leftarrow> es]) \<longrightarrow>
      generateCacheKey fileId es = generateCacheKey fileId es')"
  using getCachedTransform_second getCachedTransform_first_miss generateCacheKey_perm
  by blast

lemma cachePath_avatar:
  "cachePath ''i'' avatar = ''cache/i_fit=cover_format=webp_height=100_quality=80_width=100.webp''"
  by code_simp

lemma getCachedTransform_avatar:
  "getCachedTransform stub_externals fs_image ''i'' ''uploads/images/i.png'' avatar
     = (Inr ([3, 2, 1], False), fs_cached)"
  by (simp add: getCachedTransform_def cachePath_avatar fs_image_def read_file_def transform_def
        stub_externals_def write_file_def fs_cached_def)

theorem getCachedTransform_twice_witness:
  "getCachedTransform stub_externals fs_image ''i'' ''uploads/images/i.png'' avatar
     = (Inr ([3, 2, 1], False), fs_cached)
   \<and> getCachedTransform stub_externals fs_cached ''i'' ''uploads/images/i.png'' avatar
     = (Inr ([3, 2, 1], True), fs_cached)
   \<and> \<not> exists_file fs_image (cachePath ''i'' avatar)
   \<and> read_file fs_image (cachePath ''i'' avatar) = None
   \<and> transform stub_externals fs_image ''uploads/images/i.png'' avatar = Inr [3, 2, 1]
   \<and> cachePath ''i'' avatar \<notin> set (faulty fs_image)
   \<and> generateCacheKey ''i'' [(''width'', Some (JNum 100)), (''blur'', None), (''fit'', Some (JStr ''cover''))]
       = generateCacheKey ''i'' [(''fit'', Some (JStr ''cover'')), (''width'', Some (JNum 100))]"
proof -
  have r: "read_file fs_image (cachePath ''i'' avatar) = None"
    by (simp add: cachePath_avatar fs_image_def read_file_def)
  have t: "transform stub_externals fs_image ''uploads/images/i.png'' avatar = Inr [3, 2, 1]"
    by (simp add: transform_def fs_image_def read_file_def stub_externals_def)
  have w: "cachePath ''i'' avatar \<notin> set (faulty fs_image)"
    by (simp add: fs_image_def)
  have m: "mset [(k, v). (k, Some v) \<leftarrow> [(''width'', Some (JNum 100)), (''blur'', None),
                                          (''fit'', Some (JStr ''cover''))]]
           = mset [(k, v). (k, Some v) \<leftarrow> [(''fit'', Some (JStr ''cover'')),
                                            (''width'', Some (JNum 100))]]
         \<and> distinct (map fst [(k, v). (k, Some v) \<leftarrow> [(''width'', Some (JNum 100)),
                                  (''blur'', None), (''fit'', Some (JStr ''cover''))]])"
    by simp
  show ?thesis
    using getCachedTransform_twice [of stub_externals fs_image "''i''" "''uploads/images/i.png''"
        avatar "[3, 2, 1]" False fs_cached
        "[(''width'', Some (JNum 100)), (''blur'', None), (''fit'', Some (JStr ''cover''))]"
        "[(''fit'', Some (JStr ''cover'')), (''width'', Some (JNum 100))]"]
      getCachedTransform_avatar r t w m
    by (simp add: exists_file_def read_file_def)
qed

end
